theory Spec2Isabelle
  imports Complex_Main "HOL-Library.AList"
begin

section \<open>JavaScript values\<close>

text \<open>
  The handlers of \<^verbatim>\<open>car.controller.ts\<close> read request bodies, build plain objects and
  hand them to \<^verbatim>\<open>res.json\<close>. A value is modelled as the JavaScript value itself. A
  number is a finite value, an infinity or NaN; the two zeros are one value and a finite
  value is any rational (the doubles are among them), since the handlers only test
  numbers for truthiness. An object is the list of its own
  properties; no statement below depends on their order.
\<close>

datatype jsnum = Finite rat | Infinity bool | NaN

datatype jsval =
    Undefined
  | Null
  | Bool bool
  | Num jsnum
  | Str string
  | Arr "jsval list"
  | Obj "(string \<times> jsval) list"

text \<open>Truthiness, as \<^verbatim>\<open>!x\<close> and \<^verbatim>\<open>x || y\<close> read it.\<close>

fun truthy :: "jsval \<Rightarrow> bool" where
  "truthy Undefined = False"
| "truthy Null = False"
| "truthy (Bool b) = b"
| "truthy (Num (Finite q)) = (q \<noteq> 0)"
| "truthy (Num (Infinity s)) = True"
| "truthy (Num NaN) = False"
| "truthy (Str s) = (s \<noteq> [])"
| "truthy (Arr xs) = True"
| "truthy (Obj fs) = True"

text \<open>\<^verbatim>\<open>String(n)\<close> for an array index \<open>n\<close>: its decimal digits.\<close>

fun string_of_nat :: "nat \<Rightarrow> string" where
  "string_of_nat n =
     (if n < 10 then [''0123456789'' ! n]
      else string_of_nat (n div 10) @ [''0123456789'' ! (n mod 10)])"

declare string_of_nat.simps [simp del]

section \<open>Thrown values\<close>

text \<open>
  Every \<^verbatim>\<open>catch (err: unknown)\<close> of the controller classifies \<open>err\<close> with
  \<^verbatim>\<open>instanceof z.ZodError\<close> and \<^verbatim>\<open>instanceof Error\<close>. \<open>ZodError\<close> extends \<open>Error\<close>, so
  a thrown value is a \<open>ZodError\<close> (its issue list \<^verbatim>\<open>err.errors\<close> and its \<open>Error\<close> part),
  another \<open>Error\<close>, or any other JavaScript value. Of an issue the handlers read
  \<^verbatim>\<open>path\<close> and \<^verbatim>\<open>message\<close>; a path element is a property name or an array index.
  \<^verbatim>\<open>err.stack\<close> is a string or undefined (\<open>None\<close>).
\<close>

datatype path_elem = Key string | Index nat

record zod_issue =
  path :: "path_elem list"
  message :: string

record js_error =
  err_name :: string
  err_message :: string
  err_stack :: "string option"

datatype thrown =
    ZodError "zod_issue list" js_error
  | Error js_error
  | Thrown jsval

text \<open>\<^verbatim>\<open>err instanceof Error\<close>, giving the \<open>Error\<close> part of a value that is one.\<close>

fun instanceof_Error :: "thrown \<Rightarrow> js_error option" where
  "instanceof_Error (ZodError errors e) = Some e"
| "instanceof_Error (Error e) = Some e"
| "instanceof_Error (Thrown v) = None"

text \<open>
  A \<open>TypeError\<close> raised by the engine. Its message is given without the engine's
  quotation marks and its stack text is not modelled; no handler sends either.
\<close>

definition TypeError :: "string \<Rightarrow> thrown" where
  "TypeError m = Error \<lparr>err_name = ''TypeError'', err_message = m, err_stack = None\<rparr>"

section \<open>Objects\<close>

text \<open>
  \<^verbatim>\<open>Object.keys(v)\<close>: throws a \<open>TypeError\<close> on undefined and null, is empty on booleans
  and numbers, lists the indices of a string or an array and the property names of an
  object.
\<close>

fun Object_keys :: "jsval \<Rightarrow> thrown + string list" where
  "Object_keys Undefined = Inl (TypeError ''Cannot convert undefined or null to object'')"
| "Object_keys Null = Inl (TypeError ''Cannot convert undefined or null to object'')"
| "Object_keys (Bool b) = Inr []"
| "Object_keys (Num n) = Inr []"
| "Object_keys (Str s) = Inr (map string_of_nat [0..<length s])"
| "Object_keys (Arr xs) = Inr (map string_of_nat [0..<length xs])"
| "Object_keys (Obj fs) = Inr (map fst fs)"

text \<open>
  \<^verbatim>\<open>v.k\<close> for a property name \<open>k\<close> that no built-in prototype defines (the handlers
  read \<^verbatim>\<open>price\<close>, \<^verbatim>\<open>quantity\<close> and \<^verbatim>\<open>message\<close>): a \<open>TypeError\<close> on undefined and null,
  the property of an object when it has one, undefined otherwise.
\<close>

fun get_prop :: "jsval \<Rightarrow> string \<Rightarrow> thrown + jsval" where
  "get_prop Undefined k =
     Inl (TypeError (''Cannot read properties of undefined (reading '' @ k @ '')''))"
| "get_prop Null k =
     Inl (TypeError (''Cannot read properties of null (reading '' @ k @ '')''))"
| "get_prop (Obj fs) k = Inr (case map_of fs k of None \<Rightarrow> Undefined | Some v \<Rightarrow> v)"
| "get_prop v k = Inr Undefined"

text \<open>
  \<^verbatim>\<open>acc[k] = v\<close> on a plain object: an existing property keeps its place and takes the
  new value, a new one is added at the end. The name \<^verbatim>\<open>__proto__\<close> is the accessor of
  \<^verbatim>\<open>Object.prototype\<close>: assigning an object to it changes the prototype and no own
  property.
\<close>

definition set_prop :: "string \<Rightarrow> jsval \<Rightarrow> (string \<times> jsval) list \<Rightarrow> (string \<times> jsval) list" where
  "set_prop k v fs = (if k = ''__proto__'' then fs else AList.update k v fs)"

text \<open>\<^verbatim>\<open>path.join('.')\<close>: the elements as strings, a dot between two of them.\<close>

fun elem_string :: "path_elem \<Rightarrow> string" where
  "elem_string (Key s) = s"
| "elem_string (Index n) = string_of_nat n"

fun join_dot :: "path_elem list \<Rightarrow> string" where
  "join_dot [] = []"
| "join_dot [p] = elem_string p"
| "join_dot (p # q # ps) = elem_string p @ ''.'' @ join_dot (q # ps)"

section \<open>Responses\<close>

text \<open>
  \<^verbatim>\<open>res.status(n).json(o)\<close> sends one response: the status and the object given to
  \<^verbatim>\<open>json\<close>. A handler returns the response it sent, or \<open>None\<close> when it threw out of
  its own \<^verbatim>\<open>catch\<close> block and sent nothing.
\<close>

record response =
  status :: nat
  body :: jsval

text \<open>The value of a top-level property of a body, and of a nested one.\<close>

fun field :: "string \<Rightarrow> jsval \<Rightarrow> jsval option" where
  "field k (Obj fs) = map_of fs k"
| "field k v = None"

fun field_at :: "string list \<Rightarrow> jsval \<Rightarrow> jsval option" where
  "field_at [] v = Some v"
| "field_at (k # ks) v = (case field k v of None \<Rightarrow> None | Some w \<Rightarrow> field_at ks w)"

text \<open>\<^verbatim>\<open>a || b\<close>, and \<^verbatim>\<open>err.stack\<close> as a value.\<close>

definition or_js :: "jsval \<Rightarrow> jsval \<Rightarrow> jsval" where
  "or_js a b = (if truthy a then a else b)"

definition stack_of :: "js_error \<Rightarrow> jsval" where
  "stack_of e = (case err_stack e of None \<Rightarrow> Undefined | Some s \<Rightarrow> Str s)"

section \<open>The car controller\<close>

text \<open>
  The controller is the second part of \<^verbatim>\<open>src/src/app/config/index.ts\<close> (from line 11
  on). \<^verbatim>\<open>CarService\<close> and \<^verbatim>\<open>carValidationSchema\<close> are imported by it; each
  handler takes the function it calls as its first arguments. A call returns a value
  (\<open>Inr\<close>) or throws (\<open>Inl\<close>); for the asynchronous service functions that is how the
  awaited promise settles.
\<close>

subsection \<open>createACar\<close>

text \<open>The object stored for one issue, and the \<^verbatim>\<open>reduce\<close> over \<^verbatim>\<open>err.errors\<close>.\<close>

definition errorDetail :: "zod_issue \<Rightarrow> jsval" where
  "errorDetail error =
     Obj [(''message'', Str (message error)),
          (''name'', Str ''ValidatorError''),
          (''properties'',
             Obj [(''message'', Str (message error)),
                  (''path'', Str (join_dot (path error)))])]"

definition errorDetails :: "zod_issue list \<Rightarrow> (string \<times> jsval) list" where
  "errorDetails errors =
     foldl (\<lambda>acc error. set_prop (join_dot (path error)) (errorDetail error) acc) [] errors"

definition createACar_catch :: "thrown \<Rightarrow> response option" where
  "createACar_catch err =
     (case err of
        ZodError errors e \<Rightarrow>
          Some \<lparr>status = 400,
                body = Obj [(''message'', Str ''Validation failed''),
                            (''success'', Bool False),
                            (''error'',
                               Obj [(''name'', Str ''ValidationError''),
                                    (''errors'', Obj (errorDetails errors))]),
                            (''stack'', or_js (stack_of e) Null)]\<rparr>
      | Error e \<Rightarrow>
          Some \<lparr>status = 500,
                body = Obj [(''message'', Str ''Car could not be created!''),
                            (''success'', Bool False),
                            (''error'',
                               Obj [(''name'', Str (err_name e)),
                                    (''message'', Str (err_message e))]),
                            (''stack'', stack_of e)]\<rparr>
      | Thrown v \<Rightarrow>
          Some \<lparr>status = 500,
                body = Obj [(''message'', Str ''Car could not be created!''),
                            (''success'', Bool False),
                            (''error'',
                               Obj [(''name'', Str ''UnknownError''),
                                    (''message'', Str ''An unknown error occurred'')]),
                            (''stack'', Null)]\<rparr>)"

definition createACar ::
  "(jsval \<Rightarrow> thrown + jsval) \<Rightarrow> (jsval \<Rightarrow> thrown + jsval) \<Rightarrow> jsval \<Rightarrow> response option" where
  "createACar carValidationSchema_parse createCarIntoDB req_body =
     (case carValidationSchema_parse req_body of
        Inl err \<Rightarrow> createACar_catch err
      | Inr zodParsedCarData \<Rightarrow>
          (case createCarIntoDB zodParsedCarData of
             Inl err \<Rightarrow> createACar_catch err
           | Inr result \<Rightarrow>
               Some \<lparr>status = 200,
                     body = Obj [(''message'', Str ''Car created successfully''),
                                 (''success'', Bool True),
                                 (''data'', result)]\<rparr>))"

subsection \<open>getAllCars\<close>

definition getAllCars ::
  "(jsval \<Rightarrow> thrown + jsval list) \<Rightarrow> jsval \<Rightarrow> response option" where
  "getAllCars getAllCarsFromDB searchTerm =
     (case getAllCarsFromDB searchTerm of
        Inr result \<Rightarrow>
          (if length result > 0 then
             Some \<lparr>status = 200,
                   body = Obj [(''message'', Str ''Cars retrieved successfully''),
                               (''status'', Bool True),
                               (''data'', Arr result)]\<rparr>
           else
             Some \<lparr>status = 404,
                   body = Obj [(''success'', Bool False),
                               (''message'', Str ''No cars found.''),
                               (''data'', Null)]\<rparr>)
      | Inl err \<Rightarrow>
          (case instanceof_Error err of
             Some e \<Rightarrow>
               Some \<lparr>status = 500,
                     body = Obj [(''message'', Str ''An error occurred while fetching cars''),
                                 (''success'', Bool False),
                                 (''error'',
                                    Obj [(''name'', Str (err_name e)),
                                         (''message'', Str (err_message e)),
                                         (''stack'', stack_of e)])]\<rparr>
           | None \<Rightarrow>
               Some \<lparr>status = 500,
                     body = Obj [(''message'', Str ''An unexpected error occurred''),
                                 (''success'', Bool False),
                                 (''error'',
                                    Obj [(''name'', Str ''UnknownError''),
                                         (''message'', Str ''An unknown error occurred''),
                                         (''stack'', Str ''No stack trace available'')])]\<rparr>))"

subsection \<open>getSingleCar\<close>

text \<open>\<^verbatim>\<open>result != null\<close> is false for null and for undefined.\<close>

definition getSingleCar ::
  "(string \<Rightarrow> thrown + jsval) \<Rightarrow> string \<Rightarrow> response option" where
  "getSingleCar getSingleCarFromDB carId =
     (case getSingleCarFromDB carId of
        Inr result \<Rightarrow>
          (if result \<noteq> Null \<and> result \<noteq> Undefined then
             Some \<lparr>status = 200,
                   body = Obj [(''message'', Str ''Car retrieved successfully''),
                               (''status'', Bool True),
                               (''data'', result)]\<rparr>
           else
             Some \<lparr>status = 404,
                   body = Obj [(''success'', Bool False),
                               (''message'', Str ''No cars found.''),
                               (''data'', Null)]\<rparr>)
      | Inl err \<Rightarrow>
          (case instanceof_Error err of
             Some e \<Rightarrow>
               Some \<lparr>status = 404,
                     body = Obj [(''success'', Bool False),
                                 (''message'', Str ''Car not found'')]\<rparr>
           | None \<Rightarrow>
               Some \<lparr>status = 500,
                     body = Obj [(''message'', Str ''An unexpected error occurred''),
                                 (''success'', Bool False),
                                 (''error'',
                                    Obj [(''name'', Str ''UnknownError''),
                                         (''message'', Str ''An unknown error occurred''),
                                         (''stack'', Str ''No stack trace available'')])]\<rparr>))"

subsection \<open>updateACar\<close>

text \<open>
  The object made for one issue by the \<^verbatim>\<open>map\<close> over \<^verbatim>\<open>err.errors\<close>, in the \<^verbatim>\<open>catch\<close>
  blocks of \<^verbatim>\<open>updateACar\<close> and \<^verbatim>\<open>deleteACar\<close>.
\<close>

definition errorMsg :: "zod_issue \<Rightarrow> jsval" where
  "errorMsg error =
     Obj [(''path'', Str (join_dot (path error))),
          (''errorMessage'', Str (message error))]"

text \<open>
  The last branch reads \<^verbatim>\<open>(err as Error).message\<close> of a value that is no \<open>Error\<close>; on
  undefined and null that read throws inside the \<^verbatim>\<open>catch\<close> block and nothing is sent.
\<close>

definition updateACar_catch :: "thrown \<Rightarrow> response option" where
  "updateACar_catch err =
     (case err of
        ZodError errors e \<Rightarrow>
          Some \<lparr>status = 400,
                body = Obj [(''success'', Bool False),
                            (''message'', Str ''Validation error''),
                            (''errors'', Arr (map errorMsg errors))]\<rparr>
      | Error e \<Rightarrow>
          Some \<lparr>status = 404,
                body = Obj [(''success'', Bool False),
                            (''message'', Str ''Car not found'')]\<rparr>
      | Thrown v \<Rightarrow>
          (case get_prop v ''message'' of
             Inl thrown_in_catch \<Rightarrow> None
           | Inr m \<Rightarrow>
               Some \<lparr>status = 500,
                     body = Obj [(''success'', Bool False),
                                 (''message'', Str ''An error occurred while updating the car''),
                                 (''error'', or_js m (Str ''Unknown error''))]\<rparr>))"

text \<open>The response of the \<^verbatim>\<open>else if\<close> branch on price and quantity.\<close>

definition price_quantity_rejection :: response where
  "price_quantity_rejection =
     \<lparr>status = 400,
      body = Obj [(''success'', Bool False),
                  (''message'', Str ''Price and quantity must be provided'')]\<rparr>"

text \<open>
  The \<^verbatim>\<open>try\<close> block: the response it sends, or the value thrown in it. The operands
  of \<^verbatim>\<open>!updateData.price || !updateData.quantity\<close> are read left to right, the second
  only when the first is truthy.
\<close>

definition updateACar_try ::
  "(string \<Rightarrow> jsval \<Rightarrow> thrown + jsval) \<Rightarrow> string \<Rightarrow> jsval \<Rightarrow> thrown + response" where
  "updateACar_try updateACarIntoDB carId updateData =
     (case Object_keys updateData of
        Inl err \<Rightarrow> Inl err
      | Inr keys \<Rightarrow>
          if length keys = 0 then
            Inr \<lparr>status = 400,
                 body = Obj [(''success'', Bool False),
                             (''message'', Str ''At least one field must be provided for update'')]\<rparr>
          else
            (case get_prop updateData ''price'' of
               Inl err \<Rightarrow> Inl err
             | Inr price \<Rightarrow>
                 if \<not> truthy price then Inr price_quantity_rejection
                 else
                   (case get_prop updateData ''quantity'' of
                      Inl err \<Rightarrow> Inl err
                    | Inr quantity \<Rightarrow>
                        if \<not> truthy quantity then Inr price_quantity_rejection
                        else
                          (case updateACarIntoDB carId updateData of
                             Inl err \<Rightarrow> Inl err
                           | Inr result \<Rightarrow>
                               if \<not> truthy result then
                                 Inr \<lparr>status = 404,
                                      body = Obj [(''success'', Bool False),
                                                  (''message'', Str ''Car not found'')]\<rparr>
                               else
                                 Inr \<lparr>status = 200,
                                      body = Obj [(''message'', Str ''Car updated successfully''),
                                                  (''status'', Bool True),
                                                  (''data'', result)]\<rparr>))))"

definition updateACar ::
  "(string \<Rightarrow> jsval \<Rightarrow> thrown + jsval) \<Rightarrow> string \<Rightarrow> jsval \<Rightarrow> response option" where
  "updateACar updateACarIntoDB carId updateData =
     (case updateACar_try updateACarIntoDB carId updateData of
        Inr sent \<Rightarrow> Some sent
      | Inl err \<Rightarrow> updateACar_catch err)"

subsection \<open>deleteACar\<close>

definition deleteACar_catch :: "thrown \<Rightarrow> response option" where
  "deleteACar_catch err =
     (case err of
        ZodError errors e \<Rightarrow>
          Some \<lparr>status = 400,
                body = Obj [(''success'', Bool False),
                            (''message'', Str ''Validation error''),
                            (''errors'', Arr (map errorMsg errors))]\<rparr>
      | Error e \<Rightarrow>
          Some \<lparr>status = 404,
                body = Obj [(''success'', Bool False),
                            (''message'', Str ''Car not found'')]\<rparr>
      | Thrown v \<Rightarrow>
          (case get_prop v ''message'' of
             Inl thrown_in_catch \<Rightarrow> None
           | Inr m \<Rightarrow>
               Some \<lparr>status = 500,
                     body = Obj [(''success'', Bool False),
                                 (''message'', Str ''An error occurred while deleting the car''),
                                 (''error'', or_js m (Str ''Unknown error''))]\<rparr>))"

definition deleteACar ::
  "(string \<Rightarrow> thrown + jsval) \<Rightarrow> string \<Rightarrow> response option" where
  "deleteACar deleteACarFromDB carId =
     (case deleteACarFromDB carId of
        Inr deleted \<Rightarrow>
          Some \<lparr>status = 200,
                body = Obj [(''message'', Str ''Car deleted successfully''),
                            (''status'', Bool True),
                            (''data'', Obj [])]\<rparr>
      | Inl err \<Rightarrow> deleteACar_catch err)"

section \<open>Services and values used in examples\<close>

text \<open>
  A service call that returns \<open>v\<close> and one that throws \<open>err\<close>, whatever its arguments
  (one argument, and two for \<^verbatim>\<open>updateACarIntoDB\<close>); a car document; an \<open>Error\<close>
  and a \<open>ZodError\<close> with one issue; a \<open>ZodError\<close> with two issues on one path; an
  update payload with a price and a quantity, and one whose price is 0; a plain object
  with a \<^verbatim>\<open>name\<close> and a \<^verbatim>\<open>message\<close>, as thrown by \<^verbatim>\<open>throw {name: ..., message: ...}\<close>.
\<close>

definition returns :: "'b \<Rightarrow> 'a \<Rightarrow> thrown + 'b" where
  "returns v x = Inr v"

definition throws :: "thrown \<Rightarrow> 'a \<Rightarrow> thrown + 'b" where
  "throws err x = Inl err"

definition returns2 :: "'c \<Rightarrow> 'a \<Rightarrow> 'b \<Rightarrow> thrown + 'c" where
  "returns2 v x y = Inr v"

definition throws2 :: "thrown \<Rightarrow> 'a \<Rightarrow> 'b \<Rightarrow> thrown + 'c" where
  "throws2 err x y = Inl err"

definition corolla :: jsval where
  "corolla =
     Obj [(''brand'', Str ''Toyota''), (''model'', Str ''Corolla''),
          (''year'', Num (Finite 2020)), (''price'', Num (Finite 20000)),
          (''quantity'', Num (Finite 5)), (''category'', Str ''Sedan'')]"

definition cast_error :: js_error where
  "cast_error =
     \<lparr>err_name = ''CastError'',
      err_message = ''Cast to ObjectId failed'',
      err_stack = Some ''CastError: Cast to ObjectId failed''\<rparr>"

definition brand_required :: thrown where
  "brand_required =
     ZodError [\<lparr>path = [Key ''brand''], message = ''Required''\<rparr>]
       \<lparr>err_name = ''ZodError'', err_message = ''Required'', err_stack = None\<rparr>"

definition invalid_car :: thrown where
  "invalid_car =
     ZodError [\<lparr>path = [Key ''brand''], message = ''Brand is required''\<rparr>,
               \<lparr>path = [Key ''price''], message = ''Price must be a positive number''\<rparr>,
               \<lparr>path = [Key ''brand''], message = ''Brand must be a string''\<rparr>]
       \<lparr>err_name = ''ZodError'', err_message = ''Invalid input'', err_stack = None\<rparr>"

definition price_and_quantity :: jsval where
  "price_and_quantity = Obj [(''price'', Num (Finite 21000)), (''quantity'', Num (Finite 4))]"

definition zero_price :: jsval where
  "zero_price = Obj [(''price'', Num (Finite 0)), (''quantity'', Num (Finite 5))]"

definition db_down :: jsval where
  "db_down = Obj [(''name'', Str ''DbError''), (''message'', Str ''db down'')]"

section \<open>Properties of the handlers\<close>

subsection \<open>getAllCars\<close>

text \<open>
  C4. When the data-access call of \<^verbatim>\<open>getAllCars\<close> returns a list, the handler answers
  200 with the whole list as \<^verbatim>\<open>data\<close> if the list is not empty, and 404 with the
  message \<^verbatim>\<open>No cars found.\<close> if it is empty; an empty list never gets a 200.
\<close>

theorem getAllCars_nonempty_200_empty_404:
  assumes "getAllCarsFromDB searchTerm = Inr result"
  shows "(result \<noteq> [] \<longrightarrow>
            getAllCars getAllCarsFromDB searchTerm =
              Some \<lparr>status = 200,
                    body = Obj [(''message'', Str ''Cars retrieved successfully''),
                                (''status'', Bool True),
                                (''data'', Arr result)]\<rparr>) \<and>
         (result = [] \<longrightarrow>
            getAllCars getAllCarsFromDB searchTerm =
              Some \<lparr>status = 404,
                    body = Obj [(''success'', Bool False),
                                (''message'', Str ''No cars found.''),
                                (''data'', Null)]\<rparr>)"
  using assms by (simp add: getAllCars_def)

theorem getAllCars_nonempty_200_empty_404_witness:
  "getAllCars (returns [corolla]) (Str ''toyota'') =
     Some \<lparr>status = 200,
           body = Obj [(''message'', Str ''Cars retrieved successfully''),
                       (''status'', Bool True),
                       (''data'', Arr [corolla])]\<rparr> \<and>
   getAllCars (returns []) (Str ''toyota'') =
     Some \<lparr>status = 404,
           body = Obj [(''success'', Bool False),
                       (''message'', Str ''No cars found.''),
                       (''data'', Null)]\<rparr>"
proof -
  have full: "returns [corolla] (Str ''toyota'') = Inr [corolla]"
    by (simp add: returns_def)
  have none: "returns ([] :: jsval list) (Str ''toyota'') = Inr []"
    by (simp add: returns_def)
  show ?thesis
    using full none
      getAllCars_nonempty_200_empty_404 [of "returns [corolla]" "Str ''toyota''" "[corolla]"]
      getAllCars_nonempty_200_empty_404 [of "returns []" "Str ''toyota''" "[]"]
    by simp
qed

subsection \<open>deleteACar\<close>

text \<open>
  C8. When the data-access call of \<^verbatim>\<open>deleteACar\<close> does not throw, the handler answers
  200 with the empty object as \<^verbatim>\<open>data\<close>, whatever the call returned (so whether or not
  a record with that id existed).
\<close>

theorem deleteACar_ok_200_empty_data:
  assumes "deleteACarFromDB carId = Inr deleted"
  shows "deleteACar deleteACarFromDB carId =
           Some \<lparr>status = 200,
                 body = Obj [(''message'', Str ''Car deleted successfully''),
                             (''status'', Bool True),
                             (''data'', Obj [])]\<rparr>"
  using assms by (simp add: deleteACar_def)

theorem deleteACar_ok_200_empty_data_witness:
  "deleteACar (returns Null) ''no-such-id'' =
     Some \<lparr>status = 200,
           body = Obj [(''message'', Str ''Car deleted successfully''),
                       (''status'', Bool True),
                       (''data'', Obj [])]\<rparr> \<and>
   deleteACar (returns corolla) ''42'' =
     Some \<lparr>status = 200,
           body = Obj [(''message'', Str ''Car deleted successfully''),
                       (''status'', Bool True),
                       (''data'', Obj [])]\<rparr>"
proof -
  have absent: "returns Null ''no-such-id'' = Inr Null"
    by (simp add: returns_def)
  have present: "returns corolla ''42'' = Inr corolla"
    by (simp add: returns_def)
  show ?thesis
    using absent present
      deleteACar_ok_200_empty_data [of "returns Null" "''no-such-id''" Null]
      deleteACar_ok_200_empty_data [of "returns corolla" "''42''" corolla]
    by simp
qed

subsection \<open>createACar\<close>

text \<open>
  The object built by the \<^verbatim>\<open>reduce\<close>: under a key it holds the value stored last for
  that key.
\<close>

lemma map_of_set_prop:
  "map_of (set_prop k v fs) k' =
     (if k = ''__proto__'' then map_of fs k' else if k' = k then Some v else map_of fs k')"
  by (simp add: set_prop_def update_conv')

lemma map_of_foldl_set_prop:
  assumes "k \<noteq> ''__proto__''"
  shows "map_of (foldl (\<lambda>acc error. set_prop (key error) (val error) acc) acc errors) k =
           (if filter (\<lambda>j. key j = k) errors = [] then map_of acc k
            else Some (val (last (filter (\<lambda>j. key j = k) errors))))"
proof (induction errors rule: rev_induct)
  case Nil
  show ?case by simp
next
  case (snoc x xs)
  show ?case
  proof (cases "key x = k")
    case True
    with assms show ?thesis by (simp add: map_of_set_prop)
  next
    case False
    with snoc show ?thesis by (simp add: map_of_set_prop)
  qed
qed

lemma map_of_errorDetails:
  assumes "k \<noteq> ''__proto__''" and "issue \<in> set errors" and "join_dot (path issue) = k"
  shows "map_of (errorDetails errors) k =
           Some (errorDetail (last (filter (\<lambda>j. join_dot (path j) = k) errors)))"
proof -
  from assms(2,3) have "filter (\<lambda>j. join_dot (path j) = k) errors \<noteq> []"
    by (auto simp: filter_empty_conv)
  with assms(1) show ?thesis
    unfolding errorDetails_def
    by (simp add: map_of_foldl_set_prop [where key = "\<lambda>j. join_dot (path j)" and val = errorDetail])
qed

text \<open>
  A validation failure with the single issue \<^verbatim>\<open>brand: Required\<close>: the handler answers
  400, the entry under \<^verbatim>\<open>error.errors.brand\<close> has the properties \<^verbatim>\<open>message\<close>,
  \<^verbatim>\<open>name\<close> and \<^verbatim>\<open>properties\<close>, and it has no property \<^verbatim>\<open>ruleName\<close>.
\<close>

theorem createACar_entry_has_no_ruleName:
  "map_option status (createACar (throws brand_required) (returns corolla) (Obj [])) = Some 400 \<and>
   map_option (field_at [''error'', ''errors'', ''brand''] \<circ> body)
       (createACar (throws brand_required) (returns corolla) (Obj [])) =
     Some (Some (Obj [(''message'', Str ''Required''),
                      (''name'', Str ''ValidatorError''),
                      (''properties'',
                         Obj [(''message'', Str ''Required''), (''path'', Str ''brand'')])])) \<and>
   map_option (field_at [''error'', ''errors'', ''brand'', ''ruleName''] \<circ> body)
       (createACar (throws brand_required) (returns corolla) (Obj [])) = Some None"
  by (simp add: createACar_def createACar_catch_def throws_def brand_required_def
      errorDetails_def errorDetail_def set_prop_def)

text \<open>
  C5, as the code has it. When schema validation throws a \<open>ZodError\<close>, the handler
  answers 400 with \<^verbatim>\<open>success: false\<close> and the error object
  \<^verbatim>\<open>{name: 'ValidationError', errors}\<close>, where \<^verbatim>\<open>errors\<close> is the object built from the
  issues of the error. For every issue (whose joined path is not \<^verbatim>\<open>__proto__\<close>) that
  object has an entry under the joined path. The entry is
  \<^verbatim>\<open>{message, name: 'ValidatorError', properties: {message, path}}\<close>, taken from the last
  issue reported for that joined path.
\<close>

theorem createACar_validation_error_entries:
  assumes "carValidationSchema_parse req_body = Inl (ZodError errors e)"
    and "issue \<in> set errors"
    and "join_dot (path issue) \<noteq> ''__proto__''"
    and "shown = last (filter (\<lambda>j. join_dot (path j) = join_dot (path issue)) errors)"
  shows "map_option status (createACar carValidationSchema_parse createCarIntoDB req_body) = Some 400 \<and>
         map_option (field ''success'' \<circ> body)
             (createACar carValidationSchema_parse createCarIntoDB req_body) =
           Some (Some (Bool False)) \<and>
         map_option (field ''error'' \<circ> body)
             (createACar carValidationSchema_parse createCarIntoDB req_body) =
           Some (Some (Obj [(''name'', Str ''ValidationError''),
                            (''errors'', Obj (errorDetails errors))])) \<and>
         map_option (field_at [''error'', ''name''] \<circ> body)
             (createACar carValidationSchema_parse createCarIntoDB req_body) =
           Some (Some (Str ''ValidationError'')) \<and>
         map_option (field_at [''error'', ''errors'', join_dot (path issue)] \<circ> body)
             (createACar carValidationSchema_parse createCarIntoDB req_body) =
           Some (Some (Obj [(''message'', Str (message shown)),
                            (''name'', Str ''ValidatorError''),
                            (''properties'',
                               Obj [(''message'', Str (message shown)),
                                    (''path'', Str (join_dot (path shown)))])]))"
proof -
  have sent: "createACar carValidationSchema_parse createCarIntoDB req_body =
      Some \<lparr>status = 400,
            body = Obj [(''message'', Str ''Validation failed''),
                        (''success'', Bool False),
                        (''error'',
                           Obj [(''name'', Str ''ValidationError''),
                                (''errors'', Obj (errorDetails errors))]),
                        (''stack'', or_js (stack_of e) Null)]\<rparr>"
    using assms(1) by (simp add: createACar_def createACar_catch_def)
  have entry: "map_of (errorDetails errors) (join_dot (path issue)) = Some (errorDetail shown)"
    using map_of_errorDetails [OF assms(3) assms(2) refl] assms(4) by simp
  show ?thesis
    by (simp add: sent entry errorDetail_def)
qed

theorem createACar_validation_error_entries_witness:
  "map_option status (createACar (throws invalid_car) (returns corolla) (Obj [])) = Some 400 \<and>
   map_option (field ''success'' \<circ> body)
       (createACar (throws invalid_car) (returns corolla) (Obj [])) = Some (Some (Bool False)) \<and>
   map_option (field_at [''error'', ''name''] \<circ> body)
       (createACar (throws invalid_car) (returns corolla) (Obj [])) =
     Some (Some (Str ''ValidationError'')) \<and>
   map_option (field_at [''error'', ''errors'', ''brand''] \<circ> body)
       (createACar (throws invalid_car) (returns corolla) (Obj [])) =
     Some (Some (Obj [(''message'', Str ''Brand must be a string''),
                      (''name'', Str ''ValidatorError''),
                      (''properties'',
                         Obj [(''message'', Str ''Brand must be a string''),
                              (''path'', Str ''brand'')])]))"
  using createACar_validation_error_entries
    [of "throws invalid_car" "Obj []"
        "[\<lparr>path = [Key ''brand''], message = ''Brand is required''\<rparr>,
          \<lparr>path = [Key ''price''], message = ''Price must be a positive number''\<rparr>,
          \<lparr>path = [Key ''brand''], message = ''Brand must be a string''\<rparr>]"
        "\<lparr>err_name = ''ZodError'', err_message = ''Invalid input'', err_stack = None\<rparr>"
        "\<lparr>path = [Key ''brand''], message = ''Brand is required''\<rparr>"
        "\<lparr>path = [Key ''brand''], message = ''Brand must be a string''\<rparr>"
        "returns corolla"]
  by (simp add: throws_def invalid_car_def)

text \<open>
  A data-access call that throws the plain object
  \<^verbatim>\<open>{name: 'DbError', message: 'db down'}\<close>, which is no \<open>Error\<close>: the handler answers 500,
  and the \<^verbatim>\<open>error\<close> object of the body holds \<^verbatim>\<open>UnknownError\<close> and
  \<^verbatim>\<open>An unknown error occurred\<close>, not the name and the message of the thrown value.
\<close>

theorem createACar_thrown_object_name_dropped:
  "field ''name'' db_down = Some (Str ''DbError'') \<and>
   field ''message'' db_down = Some (Str ''db down'') \<and>
   map_option status (createACar (returns corolla) (throws (Thrown db_down)) corolla) = Some 500 \<and>
   map_option (field_at [''error'', ''name''] \<circ> body)
       (createACar (returns corolla) (throws (Thrown db_down)) corolla) =
     Some (Some (Str ''UnknownError'')) \<and>
   map_option (field_at [''error'', ''message''] \<circ> body)
       (createACar (returns corolla) (throws (Thrown db_down)) corolla) =
     Some (Some (Str ''An unknown error occurred''))"
  by (simp add: createACar_def createACar_catch_def returns_def throws_def db_down_def)

text \<open>
  C6, as the code has it. When a value that is no \<open>ZodError\<close> is thrown during
  \<^verbatim>\<open>createACar\<close> (by the schema's \<^verbatim>\<open>parse\<close> or by the data-access call), the handler
  answers 500 and the \<^verbatim>\<open>error\<close> object of the body is \<^verbatim>\<open>{name, message}\<close>: the name and
  the message of the thrown value when it is an \<open>Error\<close>, and the fixed
  \<^verbatim>\<open>UnknownError\<close> and \<^verbatim>\<open>An unknown error occurred\<close> when it is no \<open>Error\<close>, whatever
  properties it has.
\<close>

theorem createACar_unexpected_error_500:
  assumes "carValidationSchema_parse req_body = Inl err \<or>
           (carValidationSchema_parse req_body = Inr parsed \<and> createCarIntoDB parsed = Inl err)"
    and "\<forall>errors e. err \<noteq> ZodError errors e"
  shows "map_option status (createACar carValidationSchema_parse createCarIntoDB req_body) = Some 500 \<and>
         map_option (field ''error'' \<circ> body)
             (createACar carValidationSchema_parse createCarIntoDB req_body) =
           Some (Some (case instanceof_Error err of
                         Some e \<Rightarrow> Obj [(''name'', Str (err_name e)),
                                        (''message'', Str (err_message e))]
                       | None \<Rightarrow> Obj [(''name'', Str ''UnknownError''),
                                      (''message'', Str ''An unknown error occurred'')]))"
proof -
  have caught: "createACar carValidationSchema_parse createCarIntoDB req_body = createACar_catch err"
    using assms(1) by (auto simp: createACar_def)
  show ?thesis
  proof (cases err)
    case (ZodError errors e)
    with assms(2) show ?thesis by simp
  next
    case (Error e)
    then show ?thesis by (simp add: caught createACar_catch_def)
  next
    case (Thrown v)
    then show ?thesis by (simp add: caught createACar_catch_def)
  qed
qed

theorem createACar_unexpected_error_500_witness:
  "map_option status (createACar (returns corolla) (throws (Error cast_error)) corolla) = Some 500 \<and>
   map_option (field ''error'' \<circ> body)
       (createACar (returns corolla) (throws (Error cast_error)) corolla) =
     Some (Some (Obj [(''name'', Str ''CastError''),
                      (''message'', Str ''Cast to ObjectId failed'')])) \<and>
   map_option status (createACar (throws (Thrown (Str ''boom''))) (returns corolla) corolla) = Some 500 \<and>
   map_option (field ''error'' \<circ> body)
       (createACar (throws (Thrown (Str ''boom''))) (returns corolla) corolla) =
     Some (Some (Obj [(''name'', Str ''UnknownError''),
                      (''message'', Str ''An unknown error occurred'')])) \<and>
   map_option status (createACar (returns corolla) (throws (Thrown db_down)) corolla) = Some 500 \<and>
   map_option (field ''error'' \<circ> body)
       (createACar (returns corolla) (throws (Thrown db_down)) corolla) =
     Some (Some (Obj [(''name'', Str ''UnknownError''),
                      (''message'', Str ''An unknown error occurred'')]))"
  using createACar_unexpected_error_500
      [of "returns corolla" corolla "Error cast_error" corolla "throws (Error cast_error)"]
    createACar_unexpected_error_500
      [of "throws (Thrown (Str ''boom''))" corolla "Thrown (Str ''boom'')" corolla "returns corolla"]
    createACar_unexpected_error_500
      [of "returns corolla" corolla "Thrown db_down" corolla "throws (Thrown db_down)"]
  by (simp add: returns_def throws_def cast_error_def)

subsection \<open>getSingleCar\<close>

text \<open>
  A lookup that throws a string, which is no \<open>Error\<close>: the handler answers 500.
\<close>

theorem getSingleCar_thrown_string_500:
  "map_option status (getSingleCar (throws (Thrown (Str ''boom''))) ''42'') = Some 500"
  by (simp add: getSingleCar_def throws_def)

text \<open>
  C2, as the code has it. When the lookup of \<^verbatim>\<open>getSingleCar\<close> returns null the handler
  answers 404; when the lookup throws a value that is an \<open>Error\<close> (a \<open>ZodError\<close>
  included) the handler answers 404 as well; when it throws a value that is no \<open>Error\<close>
  the handler answers 500.
\<close>

theorem getSingleCar_null_or_Error_404:
  "(getSingleCarFromDB carId = Inr Null \<longrightarrow>
      getSingleCar getSingleCarFromDB carId =
        Some \<lparr>status = 404,
              body = Obj [(''success'', Bool False),
                          (''message'', Str ''No cars found.''),
                          (''data'', Null)]\<rparr>) \<and>
   (getSingleCarFromDB carId = Inl err \<and> instanceof_Error err = Some e \<longrightarrow>
      getSingleCar getSingleCarFromDB carId =
        Some \<lparr>status = 404,
              body = Obj [(''success'', Bool False),
                          (''message'', Str ''Car not found'')]\<rparr>) \<and>
   (getSingleCarFromDB carId = Inl (Thrown v) \<longrightarrow>
      map_option status (getSingleCar getSingleCarFromDB carId) = Some 500)"
  by (simp add: getSingleCar_def)

theorem getSingleCar_null_or_Error_404_witness:
  "getSingleCar (returns Null) ''no-such-id'' =
     Some \<lparr>status = 404,
           body = Obj [(''success'', Bool False),
                       (''message'', Str ''No cars found.''),
                       (''data'', Null)]\<rparr> \<and>
   getSingleCar (throws (Error cast_error)) ''not-an-id'' =
     Some \<lparr>status = 404,
           body = Obj [(''success'', Bool False), (''message'', Str ''Car not found'')]\<rparr> \<and>
   map_option status (getSingleCar (throws (Thrown (Num NaN))) ''42'') = Some 500"
  using getSingleCar_null_or_Error_404 [of "returns Null" "''no-such-id''"]
    getSingleCar_null_or_Error_404
      [of "throws (Error cast_error)" "''not-an-id''" "Error cast_error" cast_error]
    getSingleCar_null_or_Error_404
      [of "throws (Thrown (Num NaN))" "''42''" _ _ "Num NaN"]
  by (simp add: returns_def throws_def)

subsection \<open>updateACar\<close>

text \<open>
  The check on price and quantity reads the two properties for truthiness: on a
  payload with at least one property, the rejection is sent exactly when
  \<^verbatim>\<open>price\<close> or \<^verbatim>\<open>quantity\<close> is missing or falsy (0, NaN, the empty string, false,
  null).
\<close>

lemma updateACar_price_quantity_rejection_iff:
  assumes "fs \<noteq> []"
  shows "updateACar updateACarIntoDB carId (Obj fs) = Some price_quantity_rejection \<longleftrightarrow>
           \<not> (truthy (case map_of fs ''price'' of None \<Rightarrow> Undefined | Some v \<Rightarrow> v) \<and>
              truthy (case map_of fs ''quantity'' of None \<Rightarrow> Undefined | Some v \<Rightarrow> v))"
  using assms
  by (auto simp: updateACar_def updateACar_try_def updateACar_catch_def
      price_quantity_rejection_def split: sum.splits thrown.splits)

text \<open>
  C3, at a payload that holds both fields. The payload \<^verbatim>\<open>{price: 0, quantity: 5}\<close>
  has a \<^verbatim>\<open>price\<close> and a \<^verbatim>\<open>quantity\<close>; the handler answers 400 with the message
  \<^verbatim>\<open>Price and quantity must be provided\<close> and does not call data access, which
  would have returned a record.
\<close>

theorem updateACar_zero_price_rejected:
  "updateACar (returns2 corolla) ''42'' zero_price =
     Some \<lparr>status = 400,
           body = Obj [(''success'', Bool False),
                       (''message'', Str ''Price and quantity must be provided'')]\<rparr> \<and>
   field ''price'' zero_price = Some (Num (Finite 0)) \<and>
   field ''quantity'' zero_price = Some (Num (Finite 5))"
  by (simp add: updateACar_def updateACar_try_def price_quantity_rejection_def zero_price_def)

text \<open>
  C7. When the payload of \<^verbatim>\<open>updateACar\<close> passes both checks (it has a property, and
  its \<^verbatim>\<open>price\<close> and \<^verbatim>\<open>quantity\<close> are truthy), the handler answers 404 if the
  data-access update returns null, and 200 with the returned record as \<^verbatim>\<open>data\<close> if it
  returns a record.
\<close>

theorem updateACar_null_404_record_200:
  assumes "Object_keys updateData = Inr keys" and "length keys \<noteq> 0"
    and "get_prop updateData ''price'' = Inr price" and "truthy price"
    and "get_prop updateData ''quantity'' = Inr quantity" and "truthy quantity"
  shows "(updateACarIntoDB carId updateData = Inr Null \<longrightarrow>
            updateACar updateACarIntoDB carId updateData =
              Some \<lparr>status = 404,
                    body = Obj [(''success'', Bool False),
                                (''message'', Str ''Car not found'')]\<rparr>) \<and>
         (updateACarIntoDB carId updateData = Inr (Obj record) \<longrightarrow>
            updateACar updateACarIntoDB carId updateData =
              Some \<lparr>status = 200,
                    body = Obj [(''message'', Str ''Car updated successfully''),
                                (''status'', Bool True),
                                (''data'', Obj record)]\<rparr>)"
  using assms by (simp add: updateACar_def updateACar_try_def)

theorem updateACar_null_404_record_200_witness:
  "updateACar (returns2 Null) ''no-such-id'' price_and_quantity =
     Some \<lparr>status = 404,
           body = Obj [(''success'', Bool False), (''message'', Str ''Car not found'')]\<rparr> \<and>
   updateACar (returns2 corolla) ''42'' price_and_quantity =
     Some \<lparr>status = 200,
           body = Obj [(''message'', Str ''Car updated successfully''),
                       (''status'', Bool True),
                       (''data'', corolla)]\<rparr>"
  using updateACar_null_404_record_200
      [of price_and_quantity "[''price'', ''quantity'']" "Num (Finite 21000)" "Num (Finite 4)"
          "returns2 Null" "''no-such-id''"]
    updateACar_null_404_record_200
      [of price_and_quantity "[''price'', ''quantity'']" "Num (Finite 21000)" "Num (Finite 4)"
          "returns2 corolla" "''42''"
          "[(''brand'', Str ''Toyota''), (''model'', Str ''Corolla''),
            (''year'', Num (Finite 2020)), (''price'', Num (Finite 20000)),
            (''quantity'', Num (Finite 5)), (''category'', Str ''Sedan'')]"]
  by (simp add: price_and_quantity_def returns2_def corolla_def)

subsection \<open>deleteACar, when the delete call throws\<close>

text \<open>
  A delete or update call that throws undefined or null: the last branch of the
  \<^verbatim>\<open>catch\<close> block throws on reading \<^verbatim>\<open>message\<close>, and no response is sent.
\<close>

lemma thrown_null_sends_nothing:
  "deleteACar (throws (Thrown Null)) carId = None"
  "deleteACar (throws (Thrown Undefined)) carId = None"
  "updateACar (throws2 (Thrown Null)) carId price_and_quantity = None"
  by (simp_all add: deleteACar_def deleteACar_catch_def updateACar_def updateACar_try_def
      updateACar_catch_def throws_def throws2_def price_and_quantity_def)

text \<open>A delete call that throws a \<open>ZodError\<close>: the handler answers 400.\<close>

theorem deleteACar_ZodError_400:
  "map_option status (deleteACar (throws brand_required) ''42'') = Some 400"
  by (simp add: deleteACar_def deleteACar_catch_def throws_def brand_required_def)

text \<open>
  C9, as the code has it. When the delete call throws a value other than undefined
  and null, the handler answers 400 for a \<open>ZodError\<close>, 404 for any other \<open>Error\<close> and
  500 for a value that is no \<open>Error\<close>; no other status is sent on this path.
\<close>

theorem deleteACar_thrown_statuses:
  assumes "deleteACarFromDB carId = Inl err"
    and "err \<noteq> Thrown Undefined" and "err \<noteq> Thrown Null"
  shows "map_option status (deleteACar deleteACarFromDB carId) =
           Some (case err of ZodError errors e \<Rightarrow> 400 | Error e \<Rightarrow> 404 | Thrown v \<Rightarrow> 500)"
proof (cases err)
  case (ZodError errors e)
  with assms(1) show ?thesis by (simp add: deleteACar_def deleteACar_catch_def)
next
  case (Error e)
  with assms(1) show ?thesis by (simp add: deleteACar_def deleteACar_catch_def)
next
  case (Thrown v)
  with assms(2,3) have "v \<noteq> Undefined" and "v \<noteq> Null" by simp_all
  then obtain m where "get_prop v ''message'' = Inr m"
    by (cases "(v, ''message'')" rule: get_prop.cases) auto
  with assms(1) Thrown show ?thesis by (simp add: deleteACar_def deleteACar_catch_def)
qed

theorem deleteACar_thrown_statuses_witness:
  "map_option status (deleteACar (throws brand_required) ''42'') = Some 400 \<and>
   map_option status (deleteACar (throws (Error cast_error)) ''not-an-id'') = Some 404 \<and>
   map_option status (deleteACar (throws (Thrown (Str ''boom''))) ''42'') = Some 500"
  using deleteACar_thrown_statuses [of "throws brand_required" "''42''" brand_required]
    deleteACar_thrown_statuses [of "throws (Error cast_error)" "''not-an-id''" "Error cast_error"]
    deleteACar_thrown_statuses [of "throws (Thrown (Str ''boom''))" "''42''" "Thrown (Str ''boom'')"]
  by (simp add: throws_def brand_required_def)

subsection \<open>All handlers\<close>

text \<open>Every response of a handler with a status other than 200 has \<^verbatim>\<open>success: false\<close>.\<close>

lemma createACar_error_success:
  "createACar carValidationSchema_parse createCarIntoDB req_body = Some r \<Longrightarrow> status r \<noteq> 200 \<Longrightarrow>
     field ''success'' (body r) = Some (Bool False)"
  by (auto simp: createACar_def createACar_catch_def split: sum.splits thrown.splits)

lemma getAllCars_error_success:
  "getAllCars getAllCarsFromDB searchTerm = Some r \<Longrightarrow> status r \<noteq> 200 \<Longrightarrow>
     field ''success'' (body r) = Some (Bool False)"
  by (auto simp: getAllCars_def split: sum.splits option.splits if_splits)

lemma getSingleCar_error_success:
  "getSingleCar getSingleCarFromDB carId = Some r \<Longrightarrow> status r \<noteq> 200 \<Longrightarrow>
     field ''success'' (body r) = Some (Bool False)"
  by (auto simp: getSingleCar_def split: sum.splits option.splits if_splits)

lemma updateACar_catch_success:
  "updateACar_catch err = Some r \<Longrightarrow> field ''success'' (body r) = Some (Bool False)"
  by (auto simp: updateACar_catch_def split: thrown.splits sum.splits)

lemma updateACar_error_success:
  "updateACar updateACarIntoDB carId updateData = Some r \<Longrightarrow> status r \<noteq> 200 \<Longrightarrow>
     field ''success'' (body r) = Some (Bool False)"
  by (auto simp: updateACar_def updateACar_try_def price_quantity_rejection_def
      updateACar_catch_success split: sum.splits if_splits)

lemma deleteACar_error_success:
  "deleteACar deleteACarFromDB carId = Some r \<Longrightarrow> status r \<noteq> 200 \<Longrightarrow>
     field ''success'' (body r) = Some (Bool False)"
  by (auto simp: deleteACar_def deleteACar_catch_def split: sum.splits thrown.splits)

text \<open>
  C10. Every response with status 400, 404 or 500 sent by \<^verbatim>\<open>createACar\<close>,
  \<^verbatim>\<open>getAllCars\<close>, \<^verbatim>\<open>getSingleCar\<close>, \<^verbatim>\<open>updateACar\<close> or \<^verbatim>\<open>deleteACar\<close> has the property
  \<^verbatim>\<open>success\<close> with the value false in its body.
\<close>

theorem error_responses_carry_success_false:
  "(createACar carValidationSchema_parse createCarIntoDB req_body = Some created \<and>
      status created \<in> {400, 404, 500} \<longrightarrow>
        field ''success'' (body created) = Some (Bool False)) \<and>
   (getAllCars getAllCarsFromDB searchTerm = Some listed \<and>
      status listed \<in> {400, 404, 500} \<longrightarrow>
        field ''success'' (body listed) = Some (Bool False)) \<and>
   (getSingleCar getSingleCarFromDB carId = Some fetched \<and>
      status fetched \<in> {400, 404, 500} \<longrightarrow>
        field ''success'' (body fetched) = Some (Bool False)) \<and>
   (updateACar updateACarIntoDB carId' updateData = Some updated \<and>
      status updated \<in> {400, 404, 500} \<longrightarrow>
        field ''success'' (body updated) = Some (Bool False)) \<and>
   (deleteACar deleteACarFromDB carId'' = Some deleted \<and>
      status deleted \<in> {400, 404, 500} \<longrightarrow>
        field ''success'' (body deleted) = Some (Bool False))"
proof (intro conjI impI)
  assume "createACar carValidationSchema_parse createCarIntoDB req_body = Some created \<and>
      status created \<in> {400, 404, 500}"
  then show "field ''success'' (body created) = Some (Bool False)"
    using createACar_error_success [of carValidationSchema_parse createCarIntoDB req_body created]
    by auto
next
  assume "getAllCars getAllCarsFromDB searchTerm = Some listed \<and>
      status listed \<in> {400, 404, 500}"
  then show "field ''success'' (body listed) = Some (Bool False)"
    using getAllCars_error_success [of getAllCarsFromDB searchTerm listed] by auto
next
  assume "getSingleCar getSingleCarFromDB carId = Some fetched \<and>
      status fetched \<in> {400, 404, 500}"
  then show "field ''success'' (body fetched) = Some (Bool False)"
    using getSingleCar_error_success [of getSingleCarFromDB carId fetched] by auto
next
  assume "updateACar updateACarIntoDB carId' updateData = Some updated \<and>
      status updated \<in> {400, 404, 500}"
  then show "field ''success'' (body updated) = Some (Bool False)"
    using updateACar_error_success [of updateACarIntoDB carId' updateData updated] by auto
next
  assume "deleteACar deleteACarFromDB carId'' = Some deleted \<and>
      status deleted \<in> {400, 404, 500}"
  then show "field ''success'' (body deleted) = Some (Bool False)"
    using deleteACar_error_success [of deleteACarFromDB carId'' deleted] by auto
qed

theorem error_responses_carry_success_false_witness:
  "map_option status (createACar (throws brand_required) (returns corolla) (Obj [])) = Some 400 \<and>
   map_option (field ''success'' \<circ> body)
       (createACar (throws brand_required) (returns corolla) (Obj [])) = Some (Some (Bool False)) \<and>
   map_option status (getAllCars (returns []) Undefined) = Some 404 \<and>
   map_option (field ''success'' \<circ> body) (getAllCars (returns []) Undefined) =
     Some (Some (Bool False)) \<and>
   map_option status (getSingleCar (throws (Thrown (Str ''boom''))) ''42'') = Some 500 \<and>
   map_option (field ''success'' \<circ> body) (getSingleCar (throws (Thrown (Str ''boom''))) ''42'') =
     Some (Some (Bool False)) \<and>
   map_option status (updateACar (returns2 corolla) ''42'' (Obj [])) = Some 400 \<and>
   map_option (field ''success'' \<circ> body) (updateACar (returns2 corolla) ''42'' (Obj [])) =
     Some (Some (Bool False)) \<and>
   map_option status (deleteACar (throws (Error cast_error)) ''not-an-id'') = Some 404 \<and>
   map_option (field ''success'' \<circ> body) (deleteACar (throws (Error cast_error)) ''not-an-id'') =
     Some (Some (Bool False))"
proof -
  obtain created where created:
    "createACar (throws brand_required) (returns corolla) (Obj []) = Some created"
    "status created = 400"
    by (simp add: createACar_def createACar_catch_def throws_def brand_required_def)
  obtain listed where listed:
    "getAllCars (returns []) Undefined = Some listed" "status listed = 404"
    by (simp add: getAllCars_def returns_def)
  obtain fetched where fetched:
    "getSingleCar (throws (Thrown (Str ''boom''))) ''42'' = Some fetched" "status fetched = 500"
    by (simp add: getSingleCar_def throws_def)
  obtain updated where updated:
    "updateACar (returns2 corolla) ''42'' (Obj []) = Some updated" "status updated = 400"
    by (simp add: updateACar_def updateACar_try_def)
  obtain deleted where deleted:
    "deleteACar (throws (Error cast_error)) ''not-an-id'' = Some deleted" "status deleted = 404"
    by (simp add: deleteACar_def deleteACar_catch_def throws_def)
  show ?thesis
    using created listed fetched updated deleted
      error_responses_carry_success_false
        [of "throws brand_required" "returns corolla" "Obj []" created
            "returns []" Undefined listed
            "throws (Thrown (Str ''boom''))" "''42''" fetched
            "returns2 corolla" "''42''" "Obj []" updated
            "throws (Error cast_error)" "''not-an-id''" deleted]
    by simp
qed

text \<open>
  C1, at the successful responses. The 200 responses of \<^verbatim>\<open>getAllCars\<close>,
  \<^verbatim>\<open>getSingleCar\<close>, \<^verbatim>\<open>updateACar\<close> and \<^verbatim>\<open>deleteACar\<close> have no property \<^verbatim>\<open>success\<close>:
  they carry \<^verbatim>\<open>status: true\<close> in its place.
\<close>

theorem ok_responses_have_status_not_success:
  "map_option status (getAllCars (returns [corolla]) Undefined) = Some 200 \<and>
   map_option (field ''success'' \<circ> body) (getAllCars (returns [corolla]) Undefined) = Some None \<and>
   map_option (field ''status'' \<circ> body) (getAllCars (returns [corolla]) Undefined) =
     Some (Some (Bool True)) \<and>
   map_option status (getSingleCar (returns corolla) ''42'') = Some 200 \<and>
   map_option (field ''success'' \<circ> body) (getSingleCar (returns corolla) ''42'') = Some None \<and>
   map_option (field ''status'' \<circ> body) (getSingleCar (returns corolla) ''42'') =
     Some (Some (Bool True)) \<and>
   map_option status (updateACar (returns2 corolla) ''42'' price_and_quantity) = Some 200 \<and>
   map_option (field ''success'' \<circ> body) (updateACar (returns2 corolla) ''42'' price_and_quantity) =
     Some None \<and>
   map_option (field ''status'' \<circ> body) (updateACar (returns2 corolla) ''42'' price_and_quantity) =
     Some (Some (Bool True)) \<and>
   map_option status (deleteACar (returns Null) ''42'') = Some 200 \<and>
   map_option (field ''success'' \<circ> body) (deleteACar (returns Null) ''42'') = Some None \<and>
   map_option (field ''status'' \<circ> body) (deleteACar (returns Null) ''42'') =
     Some (Some (Bool True))"
  by (simp add: getAllCars_def getSingleCar_def updateACar_def updateACar_try_def deleteACar_def
      returns_def returns2_def corolla_def price_and_quantity_def)

end
